theory Spec2Isabelle
  imports Main
begin

section \<open>Data model (types/index.ts, context/AppContext.tsx)\<close>

text \<open>
  JavaScript strings are modelled as HOL strings: lists of 8-bit characters, read as
  code units. An optional field (\<open>f?: T\<close>) is an \<open>option\<close>, \<open>None\<close> standing for the
  absent field; a field of type \<open>T | null\<close> is an \<open>option\<close> with \<open>None\<close> for
  \<open>null\<close>. The field \<open>feedback?: 'liked' | 'disliked' | null\<close> of a chat message
  is both, so it is an option of an option: \<open>None\<close> is the absent field,
  \<open>Some None\<close> is \<open>null\<close>.

  Record fields are global names in HOL, so the fields that several interfaces share
  (\<open>id\<close>, \<open>username\<close>, \<open>timestamp\<close>, \<open>chat_id\<close>) carry a prefix outside the
  interface that the reducer works on.
\<close>

datatype user_kind = Support | Client | Tester

record user =
  user_id :: int
  username :: string
  user_type :: user_kind
  full_name :: "string option"
  email :: "string option"
  is_active :: bool
  isLoggedIn :: bool

datatype role = RoleUser | RoleAssistant

datatype feedback_tag = Liked | Disliked

record chat_message =
  role :: role
  content :: string
  feedback :: "feedback_tag option option"
  timestamp :: "string option"

record chat_history =
  history_id :: string
  history_title :: string
  history_timestamp :: string
  history_username :: string

record chat_request =
  req_username :: string
  req_chat_id :: "string option"
  req_user_input :: string

record chat_response =
  response :: string
  chat_id :: string

record feedback_request =
  fb_username :: string
  fb_chat_id :: string
  message_index :: int
  user_message :: string
  assistant_message :: string
  feedback_type :: feedback_tag

record app_state =
  user :: "user option"
  currentChatId :: "string option"
  messages :: "chat_message list"
  chatHistory :: "chat_history list"
  isLoading :: bool
  error :: "string option"
  needsHistoryRefresh :: bool

text \<open>
  The payload index of \<open>UPDATE_MESSAGE\<close> and \<open>UPDATE_MESSAGE_FEEDBACK\<close> is a
  JavaScript number; every caller passes an array index or a length plus one, so it is
  an \<open>int\<close> here (negative values included).
\<close>

datatype app_action =
    LOGIN user
  | LOGOUT
  | SET_LOADING bool
  | SET_ERROR "string option"
  | SET_CURRENT_CHAT "string option"
  | SET_MESSAGES "chat_message list"
  | ADD_MESSAGE chat_message
  | UPDATE_MESSAGE int chat_message
  | SET_CHAT_HISTORY "chat_history list"
  | SET_NEEDS_HISTORY_REFRESH bool
  | UPDATE_MESSAGE_FEEDBACK int "feedback_tag option"

definition initialState :: app_state where
  "initialState =
     \<lparr>user = None, currentChatId = None, messages = [], chatHistory = [],
      isLoading = False, error = None, needsHistoryRefresh = False\<rparr>"

section \<open>The reducer (context/AppContext.tsx)\<close>

text \<open>\<open>Array.prototype.map\<close> with the two-argument callback \<open>(msg, index) => ...\<close>.\<close>

definition mapi :: "('a \<Rightarrow> nat \<Rightarrow> 'b) \<Rightarrow> 'a list \<Rightarrow> 'b list" where
  "mapi f xs = map (\<lambda>(index, msg). f msg index) (enumerate 0 xs)"

fun appReducer :: "app_state \<Rightarrow> app_action \<Rightarrow> app_state" where
  "appReducer state (LOGIN payload) = state\<lparr>user := Some payload, error := None\<rparr>"
| "appReducer state LOGOUT = initialState"
| "appReducer state (SET_LOADING payload) = state\<lparr>isLoading := payload\<rparr>"
| "appReducer state (SET_ERROR payload) = state\<lparr>error := payload, isLoading := False\<rparr>"
| "appReducer state (SET_CURRENT_CHAT payload) = state\<lparr>currentChatId := payload\<rparr>"
| "appReducer state (SET_MESSAGES payload) = state\<lparr>messages := payload\<rparr>"
| "appReducer state (ADD_MESSAGE payload) = state\<lparr>messages := messages state @ [payload]\<rparr>"
| "appReducer state (UPDATE_MESSAGE i message) =
     state\<lparr>messages :=
       mapi (\<lambda>msg index. if int index = i then message else msg) (messages state)\<rparr>"
| "appReducer state (SET_CHAT_HISTORY payload) = state\<lparr>chatHistory := payload\<rparr>"
| "appReducer state (SET_NEEDS_HISTORY_REFRESH payload) =
     state\<lparr>needsHistoryRefresh := payload\<rparr>"
| "appReducer state (UPDATE_MESSAGE_FEEDBACK i fb) =
     state\<lparr>messages :=
       mapi (\<lambda>msg index. if int index = i then msg\<lparr>feedback := Some fb\<rparr> else msg)
         (messages state)\<rparr>"

section \<open>Built-ins of the language used by the handlers\<close>

text \<open>
  \<open>String.prototype.trim\<close> strips white space and line terminators from both ends;
  among 8-bit code units these are TAB, LF, VT, FF, CR, SPACE and NBSP.
\<close>

definition isWhiteSpace :: "char \<Rightarrow> bool" where
  "isWhiteSpace c \<longleftrightarrow>
     c \<in> {CHR 0x09, CHR 0x0A, CHR 0x0B, CHR 0x0C, CHR 0x0D, CHR 0x20, CHR 0xA0}"

definition trim :: "string \<Rightarrow> string" where
  "trim str = rev (dropWhile isWhiteSpace (rev (dropWhile isWhiteSpace str)))"

text \<open>\<open>xs[i]\<close> for a number \<open>i\<close>: \<open>undefined\<close> outside the array.\<close>

definition index_at :: "'a list \<Rightarrow> int \<Rightarrow> 'a option" where
  "index_at xs i = (if 0 \<le> i \<and> i < int (length xs) then Some (xs ! nat i) else None)"

text \<open>\<open>str.split(' ')\<close>: the pieces between separators, one piece for the empty string.\<close>

fun split_on :: "char \<Rightarrow> string \<Rightarrow> string list" where
  "split_on sep [] = [[]]"
| "split_on sep (c # cs) =
     (if c = sep then [] # split_on sep cs
      else (case split_on sep cs of [] \<Rightarrow> [[c]] | w # ws \<Rightarrow> (c # w) # ws))"

section \<open>Event handlers as traces\<close>

text \<open>
  A handler closes over the \<open>state\<close> of the render in which it was created and talks
  to the outside only through the helper functions of the context (each one dispatch to
  the reducer), the setters of the component's local state, and the API service. The
  model of a handler is the list of these effects in program order, as a function of the
  closed-over state, the handler's inputs and the outcome of the request it awaits.
  A rejected promise is \<open>Rejected\<close>. \<open>run\<close> applies the dispatches of a trace to the
  store in order, with no dispatch of another handler in between.
\<close>

datatype 'a outcome = Resolved 'a | Rejected

datatype event =
    Dispatch app_action
  | PostChat chat_request
  | PostFeedback feedback_request
  | AuthLogout
  | SetInputValue string
  | SetIsStreaming bool
  | SetIsWaitingForResponse bool

fun step :: "app_state \<Rightarrow> event \<Rightarrow> app_state" where
  "step s (Dispatch a) = appReducer s a"
| "step s (PostChat r) = s"
| "step s (PostFeedback r) = s"
| "step s AuthLogout = s"
| "step s (SetInputValue v) = s"
| "step s (SetIsStreaming b) = s"
| "step s (SetIsWaitingForResponse b) = s"

definition run :: "app_state \<Rightarrow> event list \<Rightarrow> app_state" where
  "run s evs = foldl step s evs"

fun dispatched :: "event list \<Rightarrow> app_action list" where
  "dispatched [] = []"
| "dispatched (Dispatch a # evs) = a # dispatched evs"
| "dispatched (e # evs) = dispatched evs"

text \<open>The object literal \<open>{ role: r, content: c }\<close>: no feedback, no timestamp.\<close>

definition new_message :: "role \<Rightarrow> string \<Rightarrow> chat_message" where
  "new_message r c = \<lparr>role = r, content = c, feedback = None, timestamp = None\<rparr>"

subsection \<open>components/ChatPanel.tsx\<close>

text \<open>
  The interval callback of \<open>simulateStreamingResponse\<close>, one call per tick, until it
  clears its own interval. \<open>substring(0, n)\<close> is \<open>take n\<close>.
\<close>

function streamingInterval :: "string \<Rightarrow> int \<Rightarrow> nat \<Rightarrow> event list" where
  "streamingInterval fullResponse messageIndex currentIndex =
     (if currentIndex < length fullResponse then
        Dispatch (UPDATE_MESSAGE messageIndex
          (new_message RoleAssistant (take (currentIndex + 8) fullResponse)))
        # streamingInterval fullResponse messageIndex (currentIndex + 8)
      else
        [SetIsStreaming False,
         Dispatch (UPDATE_MESSAGE messageIndex (new_message RoleAssistant fullResponse))])"
  by pat_completeness auto
termination
  by (relation "measure (\<lambda>(fullResponse, messageIndex, currentIndex).
        length fullResponse - currentIndex)") auto

declare streamingInterval.simps [simp del]

definition ChatPanel_simulateStreamingResponse :: "string \<Rightarrow> int \<Rightarrow> event list" where
  "ChatPanel_simulateStreamingResponse fullResponse messageIndex =
     [SetIsStreaming True,
      Dispatch (UPDATE_MESSAGE messageIndex (new_message RoleAssistant (take 5 fullResponse)))]
     @ streamingInterval fullResponse messageIndex 5"

definition ChatPanel_handleSendMessage ::
    "app_state \<Rightarrow> string \<Rightarrow> chat_response outcome \<Rightarrow> event list" where
  "ChatPanel_handleSendMessage state inputValue result =
     (if trim inputValue = [] then []
      else case user state of
        None \<Rightarrow> []
      | Some u \<Rightarrow>
          (let userMessage = trim inputValue;
               assistantMessageIndex = int (length (messages state)) + 1
           in [SetInputValue [],
               Dispatch (ADD_MESSAGE (new_message RoleUser userMessage)),
               Dispatch (ADD_MESSAGE (new_message RoleAssistant [])),
               SetIsWaitingForResponse True,
               PostChat \<lparr>req_username = username u,
                         req_chat_id =
                           (if currentChatId state = Some ''new_chat''
                               \<or> currentChatId state = None
                            then None else currentChatId state),
                         req_user_input = userMessage\<rparr>]
              @ (case result of
                   Resolved resp \<Rightarrow>
                     [SetIsWaitingForResponse False]
                     @ (if chat_id resp \<noteq> [] \<and> currentChatId state = Some ''new_chat''
                        then [Dispatch (SET_CURRENT_CHAT (Some (chat_id resp))),
                              Dispatch (SET_NEEDS_HISTORY_REFRESH True)]
                        else [])
                     @ ChatPanel_simulateStreamingResponse (response resp)
                         assistantMessageIndex
                 | Rejected \<Rightarrow>
                     [SetIsWaitingForResponse False,
                      Dispatch (SET_ERROR (Some ''Failed to send message'')),
                      Dispatch (UPDATE_MESSAGE assistantMessageIndex
                        (new_message RoleAssistant
                          ''Sorry, I encountered an error. Please try again.''))])))"

definition handleFeedback ::
    "app_state \<Rightarrow> int \<Rightarrow> feedback_tag \<Rightarrow> unit outcome \<Rightarrow> event list" where
  "handleFeedback state messageIndex feedbackType result =
     (case index_at (messages state) messageIndex of
        None \<Rightarrow> []
      | Some currentMessage \<Rightarrow>
          (case user state of
             None \<Rightarrow> []
           | Some u \<Rightarrow>
               (case currentChatId state of
                  None \<Rightarrow> []
                | Some cid \<Rightarrow>
                    if cid = [] \<or> role currentMessage \<noteq> RoleAssistant then []
                    else
                      (let userMessage =
                             (case index_at (messages state) (messageIndex - 1) of
                                None \<Rightarrow> []
                              | Some m \<Rightarrow> content m)
                       in [Dispatch (UPDATE_MESSAGE_FEEDBACK messageIndex (Some feedbackType)),
                           PostFeedback
                             \<lparr>fb_username = username u,
                              fb_chat_id = cid,
                              message_index = messageIndex div 2,
                              user_message = userMessage,
                              assistant_message = content currentMessage,
                              feedback_type = feedbackType\<rparr>]
                          @ (case result of
                               Resolved _ \<Rightarrow> []
                             | Rejected \<Rightarrow>
                                 [Dispatch (UPDATE_MESSAGE_FEEDBACK messageIndex None),
                                  Dispatch (SET_ERROR
                                    (Some ''Failed to submit feedback''))])))))"

subsection \<open>components/Chat.tsx\<close>

text \<open>
  The interval callback of the page's \<open>simulateStreamingResponse\<close>: one word per tick,
  \<open>words\<close> being the words not yet shown.
\<close>

fun interval :: "int \<Rightarrow> string list \<Rightarrow> nat \<Rightarrow> string \<Rightarrow> event list" where
  "interval messageIndex [] wordIndex currentResponse = [SetIsStreaming False]"
| "interval messageIndex (w # words) wordIndex currentResponse =
     (let currentResponse' =
            currentResponse @ (if wordIndex > 0 then '' '' else []) @ w
      in Dispatch (UPDATE_MESSAGE messageIndex (new_message RoleAssistant currentResponse'))
         # interval messageIndex words (wordIndex + 1) currentResponse')"

definition Chat_simulateStreamingResponse :: "string \<Rightarrow> int \<Rightarrow> event list" where
  "Chat_simulateStreamingResponse fullResponse messageIndex =
     interval messageIndex (split_on CHR '' '' fullResponse) 0 []"

definition Chat_handleSendMessage ::
    "app_state \<Rightarrow> string \<Rightarrow> bool \<Rightarrow> chat_response outcome \<Rightarrow> event list" where
  "Chat_handleSendMessage state inputValue isStreaming result =
     (if trim inputValue = [] then []
      else case user state of
        None \<Rightarrow> []
      | Some u \<Rightarrow>
          if isStreaming then []
          else
            (let userMessage = new_message RoleUser (trim inputValue);
                 assistantMessageIndex = int (length (messages state)) + 1
             in [Dispatch (ADD_MESSAGE userMessage),
                 Dispatch (ADD_MESSAGE (new_message RoleAssistant [])),
                 SetInputValue [],
                 SetIsStreaming True,
                 PostChat \<lparr>req_username = username u,
                           req_chat_id =
                             (if currentChatId state = Some ''new_chat''
                                 \<or> currentChatId state = None
                              then None else currentChatId state),
                           req_user_input = content userMessage\<rparr>]
                @ (case result of
                     Resolved resp \<Rightarrow>
                       (if currentChatId state = Some ''new_chat''
                           \<or> currentChatId state = None
                        then [Dispatch (SET_CURRENT_CHAT (Some (chat_id resp))),
                              Dispatch (SET_NEEDS_HISTORY_REFRESH True)]
                        else [])
                       @ Chat_simulateStreamingResponse (response resp)
                           assistantMessageIndex
                   | Rejected \<Rightarrow>
                       [Dispatch (SET_ERROR (Some ''Failed to send message'')),
                        SetIsStreaming False,
                        Dispatch (SET_MESSAGES (butlast (messages state)))])))"

subsection \<open>components/Layout.tsx\<close>

definition handleLogout :: "unit outcome \<Rightarrow> event list" where
  "handleLogout result =
     AuthLogout # (case result of
                     Resolved _ \<Rightarrow> [Dispatch LOGOUT]
                   | Rejected \<Rightarrow> [Dispatch LOGOUT])"

section \<open>Notions used to state the properties\<close>

text \<open>
  The payload of the latest \<open>UPDATE_MESSAGE\<close> in a sequence that targets index \<open>i\<close>:
  a later update of the same index overrides an earlier one.
\<close>

fun latest_update :: "(int \<times> chat_message) list \<Rightarrow> int \<Rightarrow> chat_message option" where
  "latest_update [] i = None"
| "latest_update ((k, m) # upds) i =
     (case latest_update upds i of
        Some m' \<Rightarrow> Some m'
      | None \<Rightarrow> if k = i then Some m else None)"

text \<open>The requests a trace sends to the two chat endpoints.\<close>

fun feedback_requests :: "event list \<Rightarrow> feedback_request list" where
  "feedback_requests [] = []"
| "feedback_requests (PostFeedback r # evs) = r # feedback_requests evs"
| "feedback_requests (e # evs) = feedback_requests evs"

fun chat_requests :: "event list \<Rightarrow> chat_request list" where
  "chat_requests [] = []"
| "chat_requests (PostChat r # evs) = r # chat_requests evs"
| "chat_requests (e # evs) = chat_requests evs"

fun sets_current_chat :: "app_action \<Rightarrow> bool" where
  "sets_current_chat (SET_CURRENT_CHAT c) = True"
| "sets_current_chat a = False"

fun sets_needs_history_refresh :: "app_action \<Rightarrow> bool" where
  "sets_needs_history_refresh (SET_NEEDS_HISTORY_REFRESH b) = True"
| "sets_needs_history_refresh a = False"

text \<open>Effects that touch the store only through \<open>UPDATE_MESSAGE\<close>, if at all.\<close>

fun message_update_only :: "event \<Rightarrow> bool" where
  "message_update_only (Dispatch (UPDATE_MESSAGE i m)) = True"
| "message_update_only (Dispatch a) = False"
| "message_update_only e = True"

subsection \<open>Concrete sessions\<close>

definition kamala :: user where
  "kamala = \<lparr>user_id = 1, username = ''kamala'', user_type = Support, full_name = None,
             email = None, is_active = True, isLoggedIn = True\<rparr>"

definition fresh_session :: app_state where
  "fresh_session = initialState\<lparr>user := Some kamala, currentChatId := Some ''new_chat''\<rparr>"

definition hello_session :: app_state where
  "hello_session =
     initialState\<lparr>user := Some kamala, currentChatId := Some ''abc123'',
       messages := [new_message RoleUser ''Hello'', new_message RoleAssistant ''Hi there'']\<rparr>"

definition apology_session :: app_state where
  "apology_session =
     initialState\<lparr>user := Some kamala, currentChatId := Some ''new_chat'',
       messages := [new_message RoleUser ''Hello'',
                    new_message RoleAssistant
                      ''Sorry, I encountered an error. Please try again.'']\<rparr>"

text \<open>
  The floating panel's send of "Hello" on the fresh session, answered with "Hi there"
  under the chat id "abc123". Its first five effects happen before the request is
  awaited, the rest when the response arrives.
\<close>

definition hello_send :: "event list" where
  "hello_send =
     ChatPanel_handleSendMessage fresh_session ''Hello''
       (Resolved \<lparr>response = ''Hi there'', chat_id = ''abc123''\<rparr>)"

section \<open>Basic facts about the reducer and about traces\<close>

lemma length_mapi: "length (mapi f xs) = length xs"
  by (simp add: mapi_def)

lemma nth_mapi: "j < length xs \<Longrightarrow> mapi f xs ! j = f (xs ! j) j"
  by (simp add: mapi_def nth_enumerate_eq)

lemma mapi_cong_id: "(\<And>j. j < length xs \<Longrightarrow> f (xs ! j) j = xs ! j) \<Longrightarrow> mapi f xs = xs"
  by (rule nth_equalityI) (simp_all add: length_mapi nth_mapi)

lemma mapi_list_update:
  assumes "0 \<le> i" "i < int (length xs)"
  shows "mapi (\<lambda>msg index. if int index = i then f msg else msg) xs
           = xs[nat i := f (xs ! nat i)]"
  using assms
  by (intro nth_equalityI) (auto simp: length_mapi nth_mapi nth_list_update)

lemma index_at_Some:
  "index_at xs i = Some x \<longleftrightarrow> 0 \<le> i \<and> i < int (length xs) \<and> xs ! nat i = x"
  by (auto simp: index_at_def)

lemma messages_foldl_ADD:
  "messages (foldl appReducer s (map ADD_MESSAGE adds)) = messages s @ adds"
  by (induction adds arbitrary: s) simp_all

lemma foldl_UPDATE_MESSAGE:
  "length (messages (foldl appReducer t (map (\<lambda>(i, m). UPDATE_MESSAGE i m) upds)))
     = length (messages t)
   \<and> (\<forall>j < length (messages t).
        messages (foldl appReducer t (map (\<lambda>(i, m). UPDATE_MESSAGE i m) upds)) ! j =
          (case latest_update upds (int j) of Some m \<Rightarrow> m | None \<Rightarrow> messages t ! j))"
proof (induction upds arbitrary: t)
  case Nil
  show ?case by simp
next
  case (Cons u upds)
  obtain k m where u: "u = (k, m)" by (cases u)
  let ?t1 = "appReducer t (UPDATE_MESSAGE k m)"
  have len: "length (messages ?t1) = length (messages t)"
    by (simp add: length_mapi)
  have nth: "messages ?t1 ! j = (if int j = k then m else messages t ! j)"
    if "j < length (messages t)" for j
    using that by (simp add: nth_mapi)
  from Cons.IH [of ?t1] len nth show ?case
    by (auto simp: u split: option.splits)
qed

lemma run_Nil: "run s [] = s"
  by (simp add: run_def)

lemma run_Cons: "run s (e # evs) = run (step s e) evs"
  by (simp add: run_def)

lemma run_append: "run s (xs @ ys) = run (run s xs) ys"
  by (simp add: run_def)

lemma dispatched_append: "dispatched (xs @ ys) = dispatched xs @ dispatched ys"
  by (induction xs rule: dispatched.induct) simp_all

subsection \<open>The typing simulation only rewrites messages\<close>

lemma step_message_update_only:
  "message_update_only e \<Longrightarrow>
     currentChatId (step s e) = currentChatId s
   \<and> needsHistoryRefresh (step s e) = needsHistoryRefresh s
   \<and> error (step s e) = error s
   \<and> length (messages (step s e)) = length (messages s)"
  by (induction e rule: message_update_only.induct) (simp_all add: length_mapi)

lemma run_message_update_only:
  "list_all message_update_only evs \<Longrightarrow>
     currentChatId (run s evs) = currentChatId s
   \<and> needsHistoryRefresh (run s evs) = needsHistoryRefresh s
   \<and> error (run s evs) = error s
   \<and> length (messages (run s evs)) = length (messages s)"
  by (induction evs arbitrary: s) (simp_all add: run_Nil run_Cons step_message_update_only)

lemma dispatched_message_update_only:
  "list_all message_update_only evs \<Longrightarrow>
     filter sets_current_chat (dispatched evs) = []
   \<and> filter sets_needs_history_refresh (dispatched evs) = []"
proof (induction evs)
  case Nil
  show ?case by simp
next
  case (Cons e evs)
  then show ?case
    by (induction e rule: message_update_only.induct) simp_all
qed

lemma streamingInterval_updates:
  "list_all message_update_only (streamingInterval fullResponse messageIndex currentIndex)"
  by (induction fullResponse messageIndex currentIndex rule: streamingInterval.induct)
     (subst streamingInterval.simps, simp)

lemma ChatPanel_simulateStreamingResponse_updates:
  "list_all message_update_only (ChatPanel_simulateStreamingResponse fullResponse messageIndex)"
  by (simp add: ChatPanel_simulateStreamingResponse_def streamingInterval_updates)

lemma interval_updates:
  "list_all message_update_only (interval messageIndex words wordIndex currentResponse)"
  by (induction messageIndex words wordIndex currentResponse rule: interval.induct)
     (simp_all add: Let_def)

lemma Chat_simulateStreamingResponse_updates:
  "list_all message_update_only (Chat_simulateStreamingResponse fullResponse messageIndex)"
  by (simp add: Chat_simulateStreamingResponse_def interval_updates)

lemmas stream_quiet =
  run_message_update_only [OF ChatPanel_simulateStreamingResponse_updates]
  run_message_update_only [OF Chat_simulateStreamingResponse_updates]
  dispatched_message_update_only [OF ChatPanel_simulateStreamingResponse_updates]
  dispatched_message_update_only [OF Chat_simulateStreamingResponse_updates]

subsection \<open>The model on the scenario of the specification\<close>

text \<open>
  Sending "Hello" on the sentinel chat, the backend answering "Hi there" under the chat
  id "abc123": both components end with the two messages, the typing simulation having
  filled the placeholder.
\<close>

lemma scenario_hello_panel:
  "messages (run fresh_session (ChatPanel_handleSendMessage fresh_session ''Hello''
         (Resolved \<lparr>response = ''Hi there'', chat_id = ''abc123''\<rparr>)))
     = [new_message RoleUser ''Hello'', new_message RoleAssistant ''Hi there'']"
  by (simp add: ChatPanel_handleSendMessage_def ChatPanel_simulateStreamingResponse_def
        streamingInterval.simps fresh_session_def initialState_def trim_def isWhiteSpace_def
        run_def mapi_def Let_def)

lemma scenario_hello_page:
  "messages (run fresh_session (Chat_handleSendMessage fresh_session ''Hello'' False
         (Resolved \<lparr>response = ''Hi there'', chat_id = ''abc123''\<rparr>)))
     = [new_message RoleUser ''Hello'', new_message RoleAssistant ''Hi there'']"
  by (simp add: Chat_handleSendMessage_def Chat_simulateStreamingResponse_def
        fresh_session_def initialState_def trim_def isWhiteSpace_def
        run_def mapi_def Let_def)

section \<open>The reducer's transitions\<close>

text \<open>
  C7, as the code has it. Logout discards the whole state, whatever the state was and
  whatever was dispatched before: the reducer answers \<open>LOGOUT\<close> with the initial state
  (no user, no current chat, no messages, no chat history, not loading, no error, no
  pending history refresh), and the layout's logout handler dispatches \<open>LOGOUT\<close> whether
  its own request resolves or is rejected. Nothing is cancelled: what a request still in
  flight dispatches after the logout is applied to the initial state.
\<close>

theorem logout_resets_state:
  "appReducer s LOGOUT = initialState
   \<and> run s (handleLogout result) = initialState
   \<and> run s (evs @ handleLogout result) = initialState
   \<and> run s (evs @ handleLogout result @ later) = run initialState later
   \<and> user initialState = None
   \<and> currentChatId initialState = None
   \<and> messages initialState = []
   \<and> chatHistory initialState = []
   \<and> isLoading initialState = False
   \<and> error initialState = None
   \<and> needsHistoryRefresh initialState = False"
  by (cases result)
     (simp_all add: run_append, simp_all add: run_def handleLogout_def initialState_def)

theorem logout_resets_state_witness:
  "appReducer hello_session LOGOUT = initialState
   \<and> run hello_session (handleLogout Rejected) = initialState
   \<and> run fresh_session (take 5 hello_send @ handleLogout Rejected @ drop 5 hello_send)
       = run initialState (drop 5 hello_send)"
  using logout_resets_state [of hello_session Rejected]
    logout_resets_state [of fresh_session Rejected "take 5 hello_send" "drop 5 hello_send"]
  by simp

text \<open>
  C7 as stated fails for a send that is in flight at the logout. The send of "Hello" has
  posted its request when the user logs out; the logout resets the state; the response
  then arrives and the rest of the send's trace sets the current chat id to the
  backend's id and raises the history-refresh flag, so the state is no longer the
  initial one.
\<close>

theorem logout_in_flight_send_counterexample:
  "take 5 hello_send =
     [SetInputValue [],
      Dispatch (ADD_MESSAGE (new_message RoleUser ''Hello'')),
      Dispatch (ADD_MESSAGE (new_message RoleAssistant [])),
      SetIsWaitingForResponse True,
      PostChat \<lparr>req_username = ''kamala'', req_chat_id = None, req_user_input = ''Hello''\<rparr>]
   \<and> run (run fresh_session (take 5 hello_send)) (handleLogout (Resolved ())) = initialState
   \<and> currentChatId
        (run (run (run fresh_session (take 5 hello_send)) (handleLogout (Resolved ())))
           (drop 5 hello_send)) = Some ''abc123''
   \<and> needsHistoryRefresh
        (run (run (run fresh_session (take 5 hello_send)) (handleLogout (Resolved ())))
           (drop 5 hello_send)) = True
   \<and> run (run (run fresh_session (take 5 hello_send)) (handleLogout (Resolved ())))
        (drop 5 hello_send) \<noteq> initialState"
proof -
  have evs: "hello_send =
     [SetInputValue [],
      Dispatch (ADD_MESSAGE (new_message RoleUser ''Hello'')),
      Dispatch (ADD_MESSAGE (new_message RoleAssistant [])),
      SetIsWaitingForResponse True,
      PostChat \<lparr>req_username = ''kamala'', req_chat_id = None, req_user_input = ''Hello''\<rparr>,
      SetIsWaitingForResponse False,
      Dispatch (SET_CURRENT_CHAT (Some ''abc123'')),
      Dispatch (SET_NEEDS_HISTORY_REFRESH True)]
     @ ChatPanel_simulateStreamingResponse ''Hi there'' 1"
    by (simp add: hello_send_def ChatPanel_handleSendMessage_def fresh_session_def
          initialState_def kamala_def trim_def isWhiteSpace_def Let_def)
  have reset: "run (run fresh_session (take 5 hello_send)) (handleLogout (Resolved ()))
                 = initialState"
    by (simp add: run_def handleLogout_def)
  have rest: "drop 5 hello_send =
     [SetIsWaitingForResponse False,
      Dispatch (SET_CURRENT_CHAT (Some ''abc123'')),
      Dispatch (SET_NEEDS_HISTORY_REFRESH True)]
     @ ChatPanel_simulateStreamingResponse ''Hi there'' 1"
    by (simp add: evs)
  have chat: "currentChatId (run initialState (drop 5 hello_send)) = Some ''abc123''"
    and flag: "needsHistoryRefresh (run initialState (drop 5 hello_send)) = True"
    by (simp_all add: rest run_append run_Cons run_Nil stream_quiet)
  from chat have "run initialState (drop 5 hello_send) \<noteq> initialState"
    by (auto simp: initialState_def)
  with chat flag show ?thesis
    by (simp add: reset) (simp add: evs)
qed

text \<open>
  C9. An \<open>UPDATE_MESSAGE\<close> whose index is negative or at least the length of the message
  list leaves the message list as it was, element for element (and with it the whole
  state): nothing is appended and nothing fails.
\<close>

theorem update_message_out_of_bounds:
  assumes "i < 0 \<or> int (length (messages s)) \<le> i"
  shows "messages (appReducer s (UPDATE_MESSAGE i m)) = messages s
       \<and> appReducer s (UPDATE_MESSAGE i m) = s"
proof -
  have "mapi (\<lambda>msg index. if int index = i then m else msg) (messages s) = messages s"
    using assms by (intro mapi_cong_id) auto
  then show ?thesis by simp
qed

theorem update_message_out_of_bounds_witness:
  "(2 < (0::int) \<or> int (length (messages hello_session)) \<le> 2)
   \<and> messages (appReducer hello_session (UPDATE_MESSAGE 2 (new_message RoleAssistant ''late'')))
       = [new_message RoleUser ''Hello'', new_message RoleAssistant ''Hi there'']"
proof -
  have h: "2 < (0::int) \<or> int (length (messages hello_session)) \<le> 2"
    by (simp add: hello_session_def)
  from update_message_out_of_bounds [OF h, of "new_message RoleAssistant ''late''"] h
  show ?thesis by (simp add: hello_session_def)
qed

text \<open>
  C10. An in-bounds \<open>UPDATE_MESSAGE_FEEDBACK\<close> at index \<open>i\<close> changes the feedback field of
  message \<open>i\<close> and nothing else: role, content and timestamp of that message are kept,
  the messages at the other indices are kept, and so are the user, the current chat id,
  the chat history, the loading flag, the error and the history-refresh flag.
\<close>

theorem update_message_feedback_frame:
  assumes "0 \<le> i" and "i < int (length (messages s))"
  shows "let s' = appReducer s (UPDATE_MESSAGE_FEEDBACK i fb) in
       length (messages s') = length (messages s)
     \<and> messages s' ! nat i = (messages s ! nat i)\<lparr>feedback := Some fb\<rparr>
     \<and> role (messages s' ! nat i) = role (messages s ! nat i)
     \<and> content (messages s' ! nat i) = content (messages s ! nat i)
     \<and> timestamp (messages s' ! nat i) = timestamp (messages s ! nat i)
     \<and> feedback (messages s' ! nat i) = Some fb
     \<and> (\<forall>j < length (messages s). int j \<noteq> i \<longrightarrow> messages s' ! j = messages s ! j)
     \<and> user s' = user s
     \<and> currentChatId s' = currentChatId s
     \<and> chatHistory s' = chatHistory s
     \<and> isLoading s' = isLoading s
     \<and> error s' = error s
     \<and> needsHistoryRefresh s' = needsHistoryRefresh s"
  using assms by (simp add: Let_def length_mapi nth_mapi)

theorem update_message_feedback_frame_witness:
  "(0::int) \<le> 1 \<and> 1 < int (length (messages hello_session))
   \<and> messages (appReducer hello_session (UPDATE_MESSAGE_FEEDBACK 1 (Some Liked))) ! 1 =
       (new_message RoleAssistant ''Hi there'')\<lparr>feedback := Some (Some Liked)\<rparr>
   \<and> messages (appReducer hello_session (UPDATE_MESSAGE_FEEDBACK 1 (Some Liked))) ! 0 =
       new_message RoleUser ''Hello''
   \<and> currentChatId (appReducer hello_session (UPDATE_MESSAGE_FEEDBACK 1 (Some Liked))) =
       Some ''abc123''"
proof -
  have h: "(0::int) \<le> 1" "1 < int (length (messages hello_session))"
    by (simp_all add: hello_session_def)
  from update_message_feedback_frame [OF h, of "Some Liked"] h
  show ?thesis by (simp add: Let_def hello_session_def)
qed

text \<open>
  C2. Take any state, append messages with \<open>ADD_MESSAGE\<close> and then apply
  \<open>UPDATE_MESSAGE\<close> actions whose indices lie inside the resulting list. The list keeps
  its length; at every index that some update targets it holds the payload of the latest
  such update; at every other index it holds the message that was there after the
  appends, at the same position.
\<close>

theorem update_message_latest_wins:
  assumes "\<forall>(i, m) \<in> set upds. 0 \<le> i \<and> i < int (length (messages s) + length adds)"
  shows "let s' = foldl appReducer s
                    (map ADD_MESSAGE adds @ map (\<lambda>(i, m). UPDATE_MESSAGE i m) upds)
         in length (messages s') = length (messages s) + length adds
          \<and> (\<forall>j < length (messages s) + length adds.
               messages s' ! j =
                 (case latest_update upds (int j) of
                    Some m \<Rightarrow> m
                  | None \<Rightarrow> (messages s @ adds) ! j))"
  using foldl_UPDATE_MESSAGE [of "foldl appReducer s (map ADD_MESSAGE adds)" upds]
  unfolding messages_foldl_ADD by (simp add: Let_def)

theorem update_message_latest_wins_witness:
  "((0::int) \<le> 1 \<and> 1 < int (length (messages fresh_session)
        + length [new_message RoleUser ''Hello'', new_message RoleAssistant []]))
   \<and> messages (foldl appReducer fresh_session
        (map ADD_MESSAGE [new_message RoleUser ''Hello'', new_message RoleAssistant []]
         @ map (\<lambda>(i, m). UPDATE_MESSAGE i m)
             [(1, new_message RoleAssistant ''Hi''),
              (1, new_message RoleAssistant ''Hi there'')])) ! 1
       = new_message RoleAssistant ''Hi there''
   \<and> messages (foldl appReducer fresh_session
        (map ADD_MESSAGE [new_message RoleUser ''Hello'', new_message RoleAssistant []]
         @ map (\<lambda>(i, m). UPDATE_MESSAGE i m)
             [(1, new_message RoleAssistant ''Hi''),
              (1, new_message RoleAssistant ''Hi there'')])) ! 0
       = new_message RoleUser ''Hello''"
proof -
  have b: "(0::int) \<le> 1 \<and> 1 < int (length (messages fresh_session)
        + length [new_message RoleUser ''Hello'', new_message RoleAssistant []])"
    by (simp add: fresh_session_def initialState_def)
  then have h: "\<forall>(i, m) \<in> set [(1, new_message RoleAssistant ''Hi''),
                     (1, new_message RoleAssistant ''Hi there'')].
      0 \<le> i \<and> i < int (length (messages fresh_session)
                          + length [new_message RoleUser ''Hello'', new_message RoleAssistant []])"
    by simp
  have l: "messages fresh_session = []"
    by (simp add: fresh_session_def initialState_def)
  from update_message_latest_wins [OF h] b show ?thesis
    by (simp add: Let_def l)
qed

section \<open>Sending a message\<close>

text \<open>
  C3. With an input that trims to the empty string, or with no user in the state, the
  send handler of either component returns at once: its trace is empty, so no message is
  appended, nothing is dispatched, the input field is not cleared, no request goes to the
  chat endpoint, and the state is what it was.
\<close>

theorem send_blank_is_noop:
  assumes "trim inputValue = [] \<or> user state = None"
  shows "ChatPanel_handleSendMessage state inputValue result = []
       \<and> Chat_handleSendMessage state inputValue isStreaming result = []
       \<and> chat_requests (ChatPanel_handleSendMessage state inputValue result) = []
       \<and> chat_requests (Chat_handleSendMessage state inputValue isStreaming result) = []
       \<and> run state (ChatPanel_handleSendMessage state inputValue result) = state
       \<and> run state (Chat_handleSendMessage state inputValue isStreaming result) = state"
  using assms
  by (auto simp: ChatPanel_handleSendMessage_def Chat_handleSendMessage_def run_def)

theorem send_blank_is_noop_witness:
  "(trim [CHR '' '', CHR 0x09, CHR '' ''] = [] \<or> user hello_session = None)
   \<and> ChatPanel_handleSendMessage hello_session [CHR '' '', CHR 0x09, CHR '' '']
        (Resolved \<lparr>response = ''Hi'', chat_id = ''abc123''\<rparr>) = []
   \<and> (trim ''Hello'' = [] \<or> user initialState = None)
   \<and> Chat_handleSendMessage initialState ''Hello'' False
        (Resolved \<lparr>response = ''Hi'', chat_id = ''abc123''\<rparr>) = []"
proof -
  have h1: "trim [CHR '' '', CHR 0x09, CHR '' ''] = [] \<or> user hello_session = None"
    by (simp add: trim_def isWhiteSpace_def)
  have h2: "trim ''Hello'' = [] \<or> user initialState = None"
    by (simp add: initialState_def)
  from send_blank_is_noop [OF h1] send_blank_is_noop [OF h2] h1 h2 show ?thesis
    by blast
qed

text \<open>
  C1. A send that passes its guard (non-blank input, a user, and on the chat page no
  response being typed out) on the sentinel chat \<open>new_chat\<close>, answered by the backend
  with a non-empty chat id: the trace holds exactly one \<open>SET_CURRENT_CHAT\<close>, carrying
  the backend's id, and exactly one \<open>SET_NEEDS_HISTORY_REFRESH\<close>, carrying true, and
  after the trace the current chat id is the backend's id and the history-refresh flag is
  set. A send on a chat that already has an id of its own, whatever the outcome of the
  request, dispatches neither action and leaves both fields as they were. Both hold for
  the floating panel and for the chat page.
\<close>

theorem send_adopts_backend_chat_id:
  assumes "trim inputValue \<noteq> []" and "user state = Some u"
  shows
    "(currentChatId state = Some ''new_chat'' \<and> chat_id resp \<noteq> [] \<longrightarrow>
        (let evs = ChatPanel_handleSendMessage state inputValue (Resolved resp) in
           filter sets_current_chat (dispatched evs) = [SET_CURRENT_CHAT (Some (chat_id resp))]
         \<and> filter sets_needs_history_refresh (dispatched evs) = [SET_NEEDS_HISTORY_REFRESH True]
         \<and> currentChatId (run state evs) = Some (chat_id resp)
         \<and> needsHistoryRefresh (run state evs) = True)
      \<and> (let evs = Chat_handleSendMessage state inputValue False (Resolved resp) in
           filter sets_current_chat (dispatched evs) = [SET_CURRENT_CHAT (Some (chat_id resp))]
         \<and> filter sets_needs_history_refresh (dispatched evs) = [SET_NEEDS_HISTORY_REFRESH True]
         \<and> currentChatId (run state evs) = Some (chat_id resp)
         \<and> needsHistoryRefresh (run state evs) = True))
   \<and> (currentChatId state = Some c \<and> c \<noteq> ''new_chat'' \<longrightarrow>
        (let evs = ChatPanel_handleSendMessage state inputValue result in
           filter sets_current_chat (dispatched evs) = []
         \<and> filter sets_needs_history_refresh (dispatched evs) = []
         \<and> currentChatId (run state evs) = currentChatId state
         \<and> needsHistoryRefresh (run state evs) = needsHistoryRefresh state)
      \<and> (let evs = Chat_handleSendMessage state inputValue False result in
           filter sets_current_chat (dispatched evs) = []
         \<and> filter sets_needs_history_refresh (dispatched evs) = []
         \<and> currentChatId (run state evs) = currentChatId state
         \<and> needsHistoryRefresh (run state evs) = needsHistoryRefresh state))"
  using assms
  by (cases result)
     (simp_all add: ChatPanel_handleSendMessage_def Chat_handleSendMessage_def Let_def
        run_append run_Cons run_Nil dispatched_append stream_quiet)

theorem send_adopts_backend_chat_id_witness:
  "trim ''Hello'' \<noteq> [] \<and> user fresh_session = Some kamala
   \<and> currentChatId fresh_session = Some ''new_chat''
   \<and> chat_id \<lparr>response = ''Hi there'', chat_id = ''abc123''\<rparr> \<noteq> []
   \<and> currentChatId (run fresh_session (ChatPanel_handleSendMessage fresh_session ''Hello''
         (Resolved \<lparr>response = ''Hi there'', chat_id = ''abc123''\<rparr>))) = Some ''abc123''
   \<and> needsHistoryRefresh (run fresh_session (Chat_handleSendMessage fresh_session ''Hello''
         False (Resolved \<lparr>response = ''Hi there'', chat_id = ''abc123''\<rparr>))) = True
   \<and> user hello_session = Some kamala
   \<and> currentChatId hello_session = Some ''abc123'' \<and> ''abc123'' \<noteq> ''new_chat''
   \<and> currentChatId (run hello_session (ChatPanel_handleSendMessage hello_session ''Hello''
         (Resolved \<lparr>response = ''Hi there'', chat_id = ''xyz789''\<rparr>))) = Some ''abc123''
   \<and> needsHistoryRefresh (run hello_session (Chat_handleSendMessage hello_session ''Hello''
         False Rejected)) = False"
proof -
  have t: "trim ''Hello'' \<noteq> []"
    by (simp add: trim_def isWhiteSpace_def)
  have u1: "user fresh_session = Some kamala"
    and c1: "currentChatId fresh_session = Some ''new_chat''"
    by (simp_all add: fresh_session_def initialState_def)
  have u2: "user hello_session = Some kamala"
    and c2: "currentChatId hello_session = Some ''abc123''"
    and n2: "needsHistoryRefresh hello_session = False"
    by (simp_all add: hello_session_def initialState_def)
  from send_adopts_backend_chat_id [OF t u1,
      of "\<lparr>response = ''Hi there'', chat_id = ''abc123''\<rparr>" "''abc123''" Rejected]
    send_adopts_backend_chat_id [OF t u2,
      of "\<lparr>response = ''Hi there'', chat_id = ''xyz789''\<rparr>" "''abc123''"
         "Resolved \<lparr>response = ''Hi there'', chat_id = ''xyz789''\<rparr>"]
    send_adopts_backend_chat_id [OF t u2,
      of "\<lparr>response = ''Hi there'', chat_id = ''xyz789''\<rparr>" "''abc123''" Rejected]
    t u1 c1 u2 c2 n2
  show ?thesis by (simp add: Let_def)
qed

text \<open>
  C8, as the code has it. When the request of a send that passed its guard is rejected,
  both components store the error "Failed to send message". The floating panel then
  overwrites the placeholder, the message at index (number of messages before the send)
  + 1, with the fixed apology, leaving the user's message and everything before it in
  place. The chat page does not write an apology: it takes the placeholder out, so that
  no message is left at that index.
\<close>

theorem send_failure_surfaces_error:
  assumes "trim inputValue \<noteq> []" and "user state = Some u"
  shows "(let s' = run state (ChatPanel_handleSendMessage state inputValue Rejected) in
            error s' = Some ''Failed to send message''
          \<and> messages s' = messages state @
              [new_message RoleUser (trim inputValue),
               new_message RoleAssistant ''Sorry, I encountered an error. Please try again.''])
       \<and> (let s' = run state (Chat_handleSendMessage state inputValue False Rejected) in
            error s' = Some ''Failed to send message''
          \<and> index_at (messages s') (int (length (messages state)) + 1) = None)"
proof -
  let ?n = "length (messages state)"
  let ?xs = "messages state
               @ [new_message RoleUser (trim inputValue), new_message RoleAssistant []]"
  have "mapi (\<lambda>msg index. if int index = int ?n + 1 then
            (\<lambda>_. new_message RoleAssistant ''Sorry, I encountered an error. Please try again.'') msg
          else msg) ?xs
        = ?xs[nat (int ?n + 1) := new_message RoleAssistant
                ''Sorry, I encountered an error. Please try again.'']"
    by (rule mapi_list_update) simp_all
  moreover have "nat (int ?n + 1) = Suc ?n" by simp
  ultimately have upd: "mapi (\<lambda>msg index. if int index = int ?n + 1 then
            new_message RoleAssistant ''Sorry, I encountered an error. Please try again.''
          else msg) ?xs
        = messages state @ [new_message RoleUser (trim inputValue),
            new_message RoleAssistant ''Sorry, I encountered an error. Please try again.'']"
    by (simp add: list_update_append)
  show ?thesis
    using assms upd
    by (simp add: ChatPanel_handleSendMessage_def Chat_handleSendMessage_def Let_def
          run_def index_at_def)
qed

theorem send_failure_surfaces_error_witness:
  "trim ''How are you?'' \<noteq> [] \<and> user hello_session = Some kamala
   \<and> messages (run hello_session
        (ChatPanel_handleSendMessage hello_session ''How are you?'' Rejected))
       = [new_message RoleUser ''Hello'', new_message RoleAssistant ''Hi there'',
          new_message RoleUser ''How are you?'',
          new_message RoleAssistant ''Sorry, I encountered an error. Please try again.'']
   \<and> error (run hello_session
        (Chat_handleSendMessage hello_session ''How are you?'' False Rejected))
       = Some ''Failed to send message''"
proof -
  have t: "trim ''How are you?'' \<noteq> []"
    by (simp add: trim_def isWhiteSpace_def)
  have t': "trim ''How are you?'' = ''How are you?''"
    by (simp add: trim_def isWhiteSpace_def)
  have u: "user hello_session = Some kamala"
    and m: "messages hello_session =
      [new_message RoleUser ''Hello'', new_message RoleAssistant ''Hi there'']"
    by (simp_all add: hello_session_def initialState_def)
  from send_failure_surfaces_error [OF t u] t u show ?thesis
    by (simp add: Let_def t' m)
qed

text \<open>
  C8 as stated fails on the chat page: after a rejected send in a chat of two messages
  no apology stands at index 3; the list that is left holds the first message only.
\<close>

theorem chat_page_send_failure_counterexample:
  "messages (run hello_session
      (Chat_handleSendMessage hello_session ''How are you?'' False Rejected))
     = [new_message RoleUser ''Hello'']
   \<and> index_at (messages (run hello_session
        (Chat_handleSendMessage hello_session ''How are you?'' False Rejected))) 3
       \<noteq> Some (new_message RoleAssistant ''Sorry, I encountered an error. Please try again.'')"
  by (simp add: Chat_handleSendMessage_def hello_session_def initialState_def
        trim_def isWhiteSpace_def run_def index_at_def Let_def)

section \<open>Submitting feedback (components/ChatPanel.tsx)\<close>

text \<open>
  C4. Feedback on an assistant message that passes the handler's guard, the request
  being rejected: the handler dispatches the optimistic \<open>UPDATE_MESSAGE_FEEDBACK\<close> with
  the tag, then \<open>UPDATE_MESSAGE_FEEDBACK\<close> with \<open>null\<close> on the same index, then the error.
  The optimistic dispatch tags the message; after the whole trace the message carries the
  feedback \<open>null\<close> and every other message is as before.
\<close>

theorem feedback_reverted_on_failure:
  assumes "index_at (messages state) i = Some m" and "role m = RoleAssistant"
    and "user state = Some u" and "currentChatId state = Some cid" and "cid \<noteq> []"
  shows "dispatched (handleFeedback state i tag Rejected) =
           [UPDATE_MESSAGE_FEEDBACK i (Some tag), UPDATE_MESSAGE_FEEDBACK i None,
            SET_ERROR (Some ''Failed to submit feedback'')]
       \<and> messages (appReducer state (UPDATE_MESSAGE_FEEDBACK i (Some tag)))
           = (messages state)[nat i := m\<lparr>feedback := Some (Some tag)\<rparr>]
       \<and> messages (run state (handleFeedback state i tag Rejected))
           = (messages state)[nat i := m\<lparr>feedback := Some None\<rparr>]
       \<and> feedback (messages (run state (handleFeedback state i tag Rejected)) ! nat i)
           = Some None"
proof -
  from assms(1) have bounds: "0 \<le> i" "i < int (length (messages state))"
    and m: "messages state ! nat i = m"
    by (simp_all add: index_at_Some)
  have evs: "handleFeedback state i tag Rejected =
      [Dispatch (UPDATE_MESSAGE_FEEDBACK i (Some tag)),
       PostFeedback
         \<lparr>fb_username = username u, fb_chat_id = cid, message_index = i div 2,
          user_message = (case index_at (messages state) (i - 1) of
                            None \<Rightarrow> [] | Some p \<Rightarrow> content p),
          assistant_message = content m, feedback_type = tag\<rparr>,
       Dispatch (UPDATE_MESSAGE_FEEDBACK i None),
       Dispatch (SET_ERROR (Some ''Failed to submit feedback''))]"
    using assms by (simp add: handleFeedback_def)
  show ?thesis
    unfolding evs using bounds m
    by (simp add: run_def mapi_list_update length_mapi)
qed

theorem feedback_reverted_on_failure_witness:
  "index_at (messages hello_session) 1 = Some (new_message RoleAssistant ''Hi there'')
   \<and> role (new_message RoleAssistant ''Hi there'') = RoleAssistant
   \<and> user hello_session = Some kamala
   \<and> currentChatId hello_session = Some ''abc123'' \<and> ''abc123'' \<noteq> []
   \<and> messages (run hello_session (handleFeedback hello_session 1 Disliked Rejected))
       = [new_message RoleUser ''Hello'',
          (new_message RoleAssistant ''Hi there'')\<lparr>feedback := Some None\<rparr>]"
proof -
  have h: "index_at (messages hello_session) 1 = Some (new_message RoleAssistant ''Hi there'')"
    "role (new_message RoleAssistant ''Hi there'') = RoleAssistant"
    "user hello_session = Some kamala"
    "currentChatId hello_session = Some ''abc123''" "''abc123'' \<noteq> []"
    by (simp_all add: hello_session_def initialState_def index_at_def new_message_def)
  have m: "messages hello_session =
      [new_message RoleUser ''Hello'', new_message RoleAssistant ''Hi there'']"
    by (simp add: hello_session_def)
  from feedback_reverted_on_failure [OF h, of Disliked] h show ?thesis
    by (simp add: m)
qed

text \<open>
  C6. Feedback on the assistant message at index \<open>i\<close> that passes the handler's guard
  sends exactly one request to the feedback endpoint, whatever its outcome. It carries
  the user's name, the current chat id, \<open>message_index = \<lfloor>i / 2\<rfloor>\<close>, as \<open>user_message\<close>
  the content of the message at index \<open>i - 1\<close> (the empty string when \<open>i = 0\<close>), as
  \<open>assistant_message\<close> the content of the message at index \<open>i\<close>, and the chosen tag.
\<close>

theorem feedback_request_fields:
  assumes "index_at (messages state) i = Some m" and "role m = RoleAssistant"
    and "user state = Some u" and "currentChatId state = Some cid" and "cid \<noteq> []"
  shows "feedback_requests (handleFeedback state i tag result) =
           [\<lparr>fb_username = username u,
             fb_chat_id = cid,
             message_index = i div 2,
             user_message = (if i = 0 then [] else content (messages state ! nat (i - 1))),
             assistant_message = content (messages state ! nat i),
             feedback_type = tag\<rparr>]
         \<and> 2 * (i div 2) \<le> i \<and> i < 2 * (i div 2) + 2"
  using assms
  by (cases result) (auto simp: handleFeedback_def index_at_def split: if_splits)

theorem feedback_request_fields_witness:
  "index_at (messages hello_session) 1 = Some (new_message RoleAssistant ''Hi there'')
   \<and> role (new_message RoleAssistant ''Hi there'') = RoleAssistant
   \<and> user hello_session = Some kamala
   \<and> currentChatId hello_session = Some ''abc123'' \<and> ''abc123'' \<noteq> []
   \<and> feedback_requests (handleFeedback hello_session 1 Liked (Resolved ())) =
         [\<lparr>fb_username = ''kamala'', fb_chat_id = ''abc123'', message_index = 0,
           user_message = ''Hello'', assistant_message = ''Hi there'',
           feedback_type = Liked\<rparr>]"
proof -
  have h: "index_at (messages hello_session) 1 = Some (new_message RoleAssistant ''Hi there'')"
    "role (new_message RoleAssistant ''Hi there'') = RoleAssistant"
    "user hello_session = Some kamala"
    "currentChatId hello_session = Some ''abc123''" "''abc123'' \<noteq> []"
    by (simp_all add: hello_session_def initialState_def index_at_def new_message_def)
  have m: "messages hello_session =
      [new_message RoleUser ''Hello'', new_message RoleAssistant ''Hi there'']"
    by (simp add: hello_session_def)
  from feedback_request_fields [OF h, of Liked "Resolved ()"] h show ?thesis
    by (simp add: m kamala_def new_message_def)
qed

subsection \<open>The early return of the feedback handler\<close>

text \<open>
  The guard of \<open>handleFeedback\<close> returns before any effect when the message at the index
  is the user's, and when the current chat id is \<open>null\<close> or the empty string (likewise
  when there is no message at the index, or no user): the trace is empty, so no tag is
  applied, nothing is dispatched, no request goes to the feedback endpoint, and the state
  is what it was.
\<close>

lemma handleFeedback_early_return:
  assumes "(\<exists>m. index_at (messages state) i = Some m \<and> role m = RoleUser)
         \<or> currentChatId state = None \<or> currentChatId state = Some []
         \<or> index_at (messages state) i = None \<or> user state = None"
  shows "handleFeedback state i tag result = []
       \<and> dispatched (handleFeedback state i tag result) = []
       \<and> feedback_requests (handleFeedback state i tag result) = []
       \<and> run state (handleFeedback state i tag result) = state"
proof -
  from assms have "handleFeedback state i tag result = []"
    by (auto simp: handleFeedback_def split: option.splits)
  then show ?thesis by (simp add: run_Nil)
qed

lemma handleFeedback_early_return_examples:
  "handleFeedback hello_session 0 Liked (Resolved ()) = []
   \<and> handleFeedback (hello_session\<lparr>currentChatId := None\<rparr>) 1 Liked (Resolved ()) = []"
  by (simp add: handleFeedback_def hello_session_def index_at_def new_message_def
        initialState_def)

text \<open>
  The sentinel is the chat id the floating panel sets when it initialises the session
  and on "new chat", and the send handlers of both components read it as "no chat id":
  they leave the chat id out of the request. The panel reaches a sentinel chat that
  shows an assistant message with content by a rejected first send (the error dismissed
  afterwards), and in that chat a second send still leaves the chat id out.
\<close>

lemma apology_session_reachable:
  "appReducer (run fresh_session (ChatPanel_handleSendMessage fresh_session ''Hello'' Rejected))
      (SET_ERROR None) = apology_session"
  by (simp add: ChatPanel_handleSendMessage_def fresh_session_def apology_session_def
        initialState_def trim_def isWhiteSpace_def run_def mapi_def Let_def)

lemma send_on_sentinel_chat_omits_chat_id:
  "chat_requests (ChatPanel_handleSendMessage apology_session ''Hello again'' Rejected) =
     [\<lparr>req_username = ''kamala'', req_chat_id = None, req_user_input = ''Hello again''\<rparr>]"
  by (simp add: ChatPanel_handleSendMessage_def apology_session_def initialState_def
        kamala_def trim_def isWhiteSpace_def Let_def)

text \<open>
  C5. The property asks that feedback has no effect while the chat id is still the
  sentinel \<open>new_chat\<close>. The guard of \<open>handleFeedback\<close> tests the chat id for \<open>null\<close> and the
  empty string only, and the sentinel is neither: on the assistant message of the
  sentinel chat above the handler applies the tag and sends a request to the feedback
  endpoint with \<open>new_chat\<close> as its chat id.
\<close>

theorem feedback_on_sentinel_chat:
  "currentChatId apology_session = Some ''new_chat''
   \<and> handleFeedback apology_session 1 Liked (Resolved ()) =
       [Dispatch (UPDATE_MESSAGE_FEEDBACK 1 (Some Liked)),
        PostFeedback \<lparr>fb_username = ''kamala'', fb_chat_id = ''new_chat'', message_index = 0,
          user_message = ''Hello'',
          assistant_message = ''Sorry, I encountered an error. Please try again.'',
          feedback_type = Liked\<rparr>]
   \<and> feedback (messages (run apology_session
        (handleFeedback apology_session 1 Liked (Resolved ()))) ! 1) = Some (Some Liked)"
  by (simp add: handleFeedback_def apology_session_def initialState_def index_at_def
        new_message_def kamala_def run_def mapi_def)

end
